theory Spec2Isabelle
  imports Main
begin

section \<open>The data the snippets work on\<close>

text \<open>
  The schema of \<^verbatim>\<open>create_database\<close> and \<^verbatim>\<open>add_column\<close>: table \<^verbatim>\<open>Singers\<close> keyed by
  \<^verbatim>\<open>SingerId\<close>, table \<^verbatim>\<open>Albums\<close> keyed by \<^verbatim>\<open>(SingerId, AlbumId)\<close>. The key columns are
  the key of the map; every other column is nullable, \<open>None\<close> being SQL NULL (Python's
  \<^verbatim>\<open>None\<close>). Python integers are unbounded, so a budget is an \<open>int\<close>; the range of
  the column type is the store's to enforce and is not part of the snippet.
\<close>

type_synonym key = "int \<times> int"

record singer =
  FirstName :: "string option"
  LastName :: "string option"
  SingerInfo :: "string option"

record album =
  AlbumTitle :: "string option"
  MarketingBudget :: "int option"

record database =
  Singers :: "int \<rightharpoonup> singer"
  Albums :: "key \<rightharpoonup> album"

text \<open>The exceptions that can leave \<^verbatim>\<open>read_write_transaction\<close>.\<close>

datatype py_error =
    ValueError string
  | IndexError
  | TypeError
  | Aborted
  | NotFound

text \<open>
  What the transaction body does, in the order it does it: the reads and the update it
  asks of the transaction, and the lines it prints.
\<close>

datatype event =
    ReadEv "key list"
  | UpdateEv "(int \<times> int \<times> int) list"
  | PrintBudgets int int
  | PrintComplete

text \<open>
  A read-write transaction of the client library: the state of the database its reads
  see, the rows staged by \<^verbatim>\<open>update\<close> (applied only by a commit), and the trace.
\<close>

record transaction =
  snapshot :: database
  mutations :: "(int \<times> int \<times> int) list"
  trace :: "event list"

section \<open>The store collaborator\<close>

text \<open>
  \<^verbatim>\<open>transaction.read(table='Albums', columns=('MarketingBudget',), keyset=..., limit=1)\<close>:
  one row, a one-element list holding the budget, for every key of the key set that
  exists. Both calls of the source pass a single key, so \<^verbatim>\<open>limit=1\<close> cuts nothing.
\<close>

definition transaction_read ::
  "transaction \<Rightarrow> key list \<Rightarrow> int option list list \<times> transaction" where
  "transaction_read tx keys =
     (List.map_filter
        (\<lambda>k. map_option (\<lambda>r. [MarketingBudget r]) (Albums (snapshot tx) k)) keys,
      tx\<lparr>trace := trace tx @ [ReadEv keys]\<rparr>)"

text \<open>
  \<^verbatim>\<open>transaction.update(table='Albums', columns=('SingerId', 'AlbumId', 'MarketingBudget'),
  values=...)\<close> stages the rows; nothing is written before the commit.
\<close>

definition transaction_update ::
  "transaction \<Rightarrow> (int \<times> int \<times> int) list \<Rightarrow> transaction" where
  "transaction_update tx vals =
     tx\<lparr>mutations := mutations tx @ vals, trace := trace tx @ [UpdateEv vals]\<rparr>"

text \<open>
  Applying staged update rows: each sets the \<^verbatim>\<open>MarketingBudget\<close> column of the row with
  that key and leaves its other columns alone; an update of a row that does not exist
  fails.
\<close>

fun apply_update :: "(int \<times> int \<times> int) list \<Rightarrow> (key \<rightharpoonup> album) \<Rightarrow> (key \<rightharpoonup> album) option" where
  "apply_update [] m = Some m"
| "apply_update ((s, a, b) # vals) m =
     (case m (s, a) of
        None \<Rightarrow> None
      | Some r \<Rightarrow> apply_update vals (m((s, a) \<mapsto> r\<lparr>MarketingBudget := Some b\<rparr>)))"

text \<open>
  The store's answers to the commits of one call are its own. \<open>Success\<close>: the commit is
  accepted. \<open>Retry v\<close>: the commit is aborted because of a conflict and the library runs
  the body again, \<open>v\<close> being the answers from then on. \<open>Conflict\<close>: the commit is
  aborted and the library's deadline has passed, so that \<open>Aborted\<close> reaches the caller.
\<close>

datatype verdict = Success | Conflict | Retry verdict

definition commit :: "verdict \<Rightarrow> transaction \<Rightarrow> database \<Rightarrow> py_error + database" where
  "commit v tx db =
     (case v of
        Success \<Rightarrow>
          (case apply_update (mutations tx) (Albums db) of
             None \<Rightarrow> Inl NotFound
           | Some m \<Rightarrow> Inr (db\<lparr>Albums := m\<rparr>))
      | Conflict \<Rightarrow> Inl Aborted
      | Retry v' \<Rightarrow> Inl Aborted)"

text \<open>
  \<^verbatim>\<open>database.run_in_transaction(func)\<close>: begin a transaction, run the body; an exception
  of the body rolls the transaction back and is raised again; otherwise commit. A commit
  the store aborts is followed by another attempt, from the beginning and in a new
  transaction, until the deadline. The result is the database afterwards, the trace of
  all the attempts and the outcome. No other transaction writes between the attempts:
  each attempt finds the database of the call.
\<close>

fun run_in_transaction ::
  "verdict \<Rightarrow> database \<Rightarrow> (transaction \<Rightarrow> transaction \<times> (py_error + unit)) \<Rightarrow>
   database \<times> event list \<times> (py_error + unit)" where
  "run_in_transaction v db func =
     (case func \<lparr>snapshot = db, mutations = [], trace = []\<rparr> of
        (tx, Inl e) \<Rightarrow> (db, trace tx, Inl e)
      | (tx, Inr u) \<Rightarrow>
          (case commit v tx db of
             Inr db' \<Rightarrow> (db', trace tx, Inr u)
           | Inl e \<Rightarrow>
               (case v of
                  Retry v' \<Rightarrow>
                    (case run_in_transaction v' db func of
                       (db', tr, r) \<Rightarrow> (db', trace tx @ tr, r))
                | Success \<Rightarrow> (db, trace tx, Inl e)
                | Conflict \<Rightarrow> (db, trace tx, Inl e))))"

declare run_in_transaction.simps [simp del]

section \<open>Python's operations on what a read returns\<close>

text \<open>\<^verbatim>\<open>xs[0]\<close> raises IndexError on an empty list.\<close>

definition item0 :: "'a list \<Rightarrow> py_error + 'a" where
  "item0 xs = (case xs of [] \<Rightarrow> Inl IndexError | x # _ \<Rightarrow> Inr x)"

text \<open>Comparing or adding \<^verbatim>\<open>None\<close> and an integer raises TypeError (Python 3).\<close>

definition py_lt :: "int option \<Rightarrow> int \<Rightarrow> py_error + bool" where
  "py_lt x n = (case x of None \<Rightarrow> Inl TypeError | Some i \<Rightarrow> Inr (i < n))"

definition py_sub :: "int option \<Rightarrow> int \<Rightarrow> py_error + int" where
  "py_sub x n = (case x of None \<Rightarrow> Inl TypeError | Some i \<Rightarrow> Inr (i - n))"

definition py_add :: "int option \<Rightarrow> int \<Rightarrow> py_error + int" where
  "py_add x n = (case x of None \<Rightarrow> Inl TypeError | Some i \<Rightarrow> Inr (i + n))"

section \<open>The read-write transaction\<close>

definition transfer_amount :: int where
  "transfer_amount = 200000"

definition funds_message :: string where
  "funds_message = ''The second album doesn'' @ [CHR 0x27] @ ''t have enough funds to transfer''"

text \<open>
  The transaction body \<^verbatim>\<open>update_albums\<close>: read the budget of the album (2,2), raise
  ValueError when it is below 300000, read the budget of the album (1,1), take the
  transfer amount from the former and add it to the latter, print both and stage the
  update of the two rows. Every indexing, comparison and addition that can raise in
  Python is a branch.
\<close>

definition update_albums :: "transaction \<Rightarrow> transaction \<times> (py_error + unit)" where
  "update_albums transaction =
     (case transaction_read transaction [(2, 2)] of (second_album_result, t1) \<Rightarrow>
     (case item0 second_album_result of Inl e \<Rightarrow> (t1, Inl e) | Inr second_album_row \<Rightarrow>
     (case item0 second_album_row of Inl e \<Rightarrow> (t1, Inl e) | Inr second_album_budget \<Rightarrow>
     (case py_lt second_album_budget 300000 of Inl e \<Rightarrow> (t1, Inl e) | Inr too_low \<Rightarrow>
       if too_low then (t1, Inl (ValueError funds_message))
       else
     (case transaction_read t1 [(1, 1)] of (first_album_result, t2) \<Rightarrow>
     (case item0 first_album_result of Inl e \<Rightarrow> (t2, Inl e) | Inr first_album_row \<Rightarrow>
     (case item0 first_album_row of Inl e \<Rightarrow> (t2, Inl e) | Inr first_album_budget \<Rightarrow>
     (case py_sub second_album_budget transfer_amount of Inl e \<Rightarrow> (t2, Inl e) | Inr second_new \<Rightarrow>
     (case py_add first_album_budget transfer_amount of Inl e \<Rightarrow> (t2, Inl e) | Inr first_new \<Rightarrow>
       (transaction_update (t2\<lparr>trace := trace t2 @ [PrintBudgets first_new second_new]\<rparr>)
          [(1, 1, first_new), (2, 2, second_new)],
        Inr ()))))))))))"

text \<open>
  \<^verbatim>\<open>read_write_transaction\<close>, on the database its two identifiers name: it runs
  \<^verbatim>\<open>update_albums\<close> in a transaction and prints a last line when that returns.
\<close>

definition read_write_transaction ::
  "verdict \<Rightarrow> database \<Rightarrow> database \<times> event list \<times> (py_error + unit)" where
  "read_write_transaction v db =
     (case run_in_transaction v db update_albums of
        (db', tr, Inl e) \<Rightarrow> (db', tr, Inl e)
      | (db', tr, Inr u) \<Rightarrow> (db', tr @ [PrintComplete], Inr ()))"

section \<open>The sample data\<close>

text \<open>\<^verbatim>\<open>create_database\<close>: the two tables, empty.\<close>

definition create_database :: database where
  "create_database = \<lparr>Singers = Map.empty, Albums = Map.empty\<rparr>"

text \<open>
  \<^verbatim>\<open>insert_data\<close>, run on the database of \<^verbatim>\<open>create_database\<close>, where none of its rows
  exists yet. The column of \<^verbatim>\<open>add_column\<close> is NULL in every row it inserts.
\<close>

definition insert_data :: "database \<Rightarrow> database" where
  "insert_data db =
     db\<lparr>Singers := Singers db ++ map_of
        [(1, \<lparr>FirstName = Some ''Marc'', LastName = Some ''Richards'', SingerInfo = None\<rparr>),
         (2, \<lparr>FirstName = Some ''Catalina'', LastName = Some ''Smith'', SingerInfo = None\<rparr>),
         (3, \<lparr>FirstName = Some ''Alice'', LastName = Some ''Trentor'', SingerInfo = None\<rparr>),
         (4, \<lparr>FirstName = Some ''Lea'', LastName = Some ''Martin'', SingerInfo = None\<rparr>),
         (5, \<lparr>FirstName = Some ''David'', LastName = Some ''Lomond'', SingerInfo = None\<rparr>)],
      Albums := Albums db ++ map_of
        [((1, 1), \<lparr>AlbumTitle = Some ''Total Junk'', MarketingBudget = None\<rparr>),
         ((1, 2), \<lparr>AlbumTitle = Some ''Go, Go, Go'', MarketingBudget = None\<rparr>),
         ((2, 1), \<lparr>AlbumTitle = Some ''Green'', MarketingBudget = None\<rparr>),
         ((2, 2), \<lparr>AlbumTitle = Some ''Forever Hold Your Peace'', MarketingBudget = None\<rparr>),
         ((2, 3), \<lparr>AlbumTitle = Some ''Terrified'', MarketingBudget = None\<rparr>)]\<rparr>"

text \<open>\<^verbatim>\<open>update_data\<close>: a batch that updates the budgets of the albums (1,1) and (2,2).\<close>

definition update_data :: "database \<Rightarrow> py_error + database" where
  "update_data db =
     (case apply_update [(1, 1, 100000), (2, 2, 500000)] (Albums db) of
        None \<Rightarrow> Inl NotFound
      | Some m \<Rightarrow> Inr (db\<lparr>Albums := m\<rparr>))"

text \<open>The database the transaction is meant to run on: after \<^verbatim>\<open>update_data\<close>.\<close>

definition sample_data :: database where
  "sample_data =
     (case update_data (insert_data create_database) of
        Inr db \<Rightarrow> db
      | Inl e \<Rightarrow> insert_data create_database)"

text \<open>The same database with another budget for one album.\<close>

definition with_budget :: "database \<Rightarrow> key \<Rightarrow> int \<Rightarrow> database" where
  "with_budget db k b =
     (case Albums db k of
        None \<Rightarrow> db
      | Some r \<Rightarrow> db\<lparr>Albums := (Albums db)(k \<mapsto> r\<lparr>MarketingBudget := Some b\<rparr>)\<rparr>)"

section \<open>The paths through the transaction\<close>

lemma transaction_read_missing:
  "Albums (snapshot tx) k = None \<Longrightarrow>
   transaction_read tx [k] = ([], tx\<lparr>trace := trace tx @ [ReadEv [k]]\<rparr>)"
  by (simp add: transaction_read_def List.map_filter_simps)

lemma transaction_read_present:
  "Albums (snapshot tx) k = Some r \<Longrightarrow>
   transaction_read tx [k] = ([[MarketingBudget r]], tx\<lparr>trace := trace tx @ [ReadEv [k]]\<rparr>)"
  by (simp add: transaction_read_def List.map_filter_simps)

lemma update_albums_missing2:
  assumes "Albums (snapshot tx) (2, 2) = None"
  shows "update_albums tx = (tx\<lparr>trace := trace tx @ [ReadEv [(2, 2)]]\<rparr>, Inl IndexError)"
  by (simp add: update_albums_def transaction_read_missing [OF assms] item0_def)

lemma update_albums_null2:
  assumes "Albums (snapshot tx) (2, 2) = Some r2" and "MarketingBudget r2 = None"
  shows "update_albums tx = (tx\<lparr>trace := trace tx @ [ReadEv [(2, 2)]]\<rparr>, Inl TypeError)"
  using assms(2)
  by (simp add: update_albums_def transaction_read_present [OF assms(1)] item0_def py_lt_def)

lemma update_albums_low:
  assumes "Albums (snapshot tx) (2, 2) = Some r2" and "MarketingBudget r2 = Some b2"
    and "b2 < 300000"
  shows "update_albums tx =
    (tx\<lparr>trace := trace tx @ [ReadEv [(2, 2)]]\<rparr>, Inl (ValueError funds_message))"
  using assms(2,3)
  by (simp add: update_albums_def transaction_read_present [OF assms(1)] item0_def py_lt_def)

lemma update_albums_missing1:
  assumes "Albums (snapshot tx) (2, 2) = Some r2" and "MarketingBudget r2 = Some b2"
    and "\<not> b2 < 300000" and "Albums (snapshot tx) (1, 1) = None"
  shows "update_albums tx =
    (tx\<lparr>trace := trace tx @ [ReadEv [(2, 2)], ReadEv [(1, 1)]]\<rparr>, Inl IndexError)"
proof -
  let ?t1 = "tx\<lparr>trace := trace tx @ [ReadEv [(2, 2)]]\<rparr>"
  have r2: "transaction_read tx [(2, 2)] = ([[MarketingBudget r2]], ?t1)"
    by (rule transaction_read_present [OF assms(1)])
  have "Albums (snapshot ?t1) (1, 1) = None"
    using assms(4) by simp
  from transaction_read_missing [OF this]
  have r1: "transaction_read ?t1 [(1, 1)] =
      ([], tx\<lparr>trace := trace tx @ [ReadEv [(2, 2)], ReadEv [(1, 1)]]\<rparr>)"
    by simp
  show ?thesis
    using assms(2,3) by (simp add: update_albums_def r2 r1 item0_def py_lt_def)
qed

lemma update_albums_null1:
  assumes "Albums (snapshot tx) (2, 2) = Some r2" and "MarketingBudget r2 = Some b2"
    and "\<not> b2 < 300000"
    and "Albums (snapshot tx) (1, 1) = Some r1" and "MarketingBudget r1 = None"
  shows "update_albums tx =
    (tx\<lparr>trace := trace tx @ [ReadEv [(2, 2)], ReadEv [(1, 1)]]\<rparr>, Inl TypeError)"
proof -
  let ?t1 = "tx\<lparr>trace := trace tx @ [ReadEv [(2, 2)]]\<rparr>"
  have r2: "transaction_read tx [(2, 2)] = ([[MarketingBudget r2]], ?t1)"
    by (rule transaction_read_present [OF assms(1)])
  have "Albums (snapshot ?t1) (1, 1) = Some r1"
    using assms(4) by simp
  from transaction_read_present [OF this]
  have r1: "transaction_read ?t1 [(1, 1)] =
      ([[MarketingBudget r1]], tx\<lparr>trace := trace tx @ [ReadEv [(2, 2)], ReadEv [(1, 1)]]\<rparr>)"
    by simp
  show ?thesis
    using assms(2,3,5)
    by (simp add: update_albums_def r2 r1 item0_def py_lt_def py_sub_def py_add_def)
qed

lemma update_albums_ok:
  assumes "Albums (snapshot tx) (2, 2) = Some r2" and "MarketingBudget r2 = Some b2"
    and "\<not> b2 < 300000"
    and "Albums (snapshot tx) (1, 1) = Some r1" and "MarketingBudget r1 = Some b1"
  shows "update_albums tx =
    (tx\<lparr>mutations := mutations tx @ [(1, 1, b1 + 200000), (2, 2, b2 - 200000)],
        trace := trace tx @
          [ReadEv [(2, 2)], ReadEv [(1, 1)], PrintBudgets (b1 + 200000) (b2 - 200000),
           UpdateEv [(1, 1, b1 + 200000), (2, 2, b2 - 200000)]]\<rparr>,
     Inr ())"
proof -
  let ?t1 = "tx\<lparr>trace := trace tx @ [ReadEv [(2, 2)]]\<rparr>"
  have r2: "transaction_read tx [(2, 2)] = ([[MarketingBudget r2]], ?t1)"
    by (rule transaction_read_present [OF assms(1)])
  have "Albums (snapshot ?t1) (1, 1) = Some r1"
    using assms(4) by simp
  from transaction_read_present [OF this]
  have r1: "transaction_read ?t1 [(1, 1)] =
      ([[MarketingBudget r1]], tx\<lparr>trace := trace tx @ [ReadEv [(2, 2)], ReadEv [(1, 1)]]\<rparr>)"
    by simp
  show ?thesis
    using assms(2,3,5)
    by (simp add: update_albums_def r2 r1 item0_def py_lt_def py_sub_def py_add_def
        transaction_update_def transfer_amount_def)
qed

text \<open>What \<^verbatim>\<open>run_in_transaction\<close> makes of one attempt.\<close>

lemma run_raises:
  assumes "func \<lparr>snapshot = db, mutations = [], trace = []\<rparr> = (tx, Inl e)"
  shows "run_in_transaction v db func = (db, trace tx, Inl e)"
  by (subst run_in_transaction.simps) (simp add: assms)

lemma run_success:
  assumes "func \<lparr>snapshot = db, mutations = [], trace = []\<rparr> = (tx, Inr u)"
    and "commit Success tx db = Inr db'"
  shows "run_in_transaction Success db func = (db', trace tx, Inr u)"
  by (subst run_in_transaction.simps) (simp add: assms)

lemma run_conflict:
  assumes "func \<lparr>snapshot = db, mutations = [], trace = []\<rparr> = (tx, Inr u)"
  shows "run_in_transaction Conflict db func = (db, trace tx, Inl Aborted)"
  by (subst run_in_transaction.simps) (simp add: assms commit_def)

lemma run_retry:
  assumes "func \<lparr>snapshot = db, mutations = [], trace = []\<rparr> = (tx, Inr u)"
  shows "run_in_transaction (Retry v) db func =
    (case run_in_transaction v db func of (db', tr, r) \<Rightarrow> (db', trace tx @ tr, r))"
  by (subst run_in_transaction.simps) (simp add: assms commit_def)

text \<open>The same paths, seen from the caller of \<^verbatim>\<open>read_write_transaction\<close>.\<close>

lemma rwt_raises:
  assumes "update_albums \<lparr>snapshot = db, mutations = [], trace = []\<rparr> = (tx, Inl e)"
  shows "read_write_transaction v db = (db, trace tx, Inl e)"
  by (simp add: read_write_transaction_def run_raises [where func = update_albums, OF assms])

lemma rwt_missing2:
  assumes "Albums db (2, 2) = None"
  shows "read_write_transaction v db = (db, [ReadEv [(2, 2)]], Inl IndexError)"
proof -
  let ?tx = "\<lparr>snapshot = db, mutations = [], trace = []\<rparr>"
  have "Albums (snapshot ?tx) (2, 2) = None"
    using assms by simp
  from rwt_raises [OF update_albums_missing2 [OF this], of v] show ?thesis
    by simp
qed

lemma rwt_null2:
  assumes "Albums db (2, 2) = Some r2" and "MarketingBudget r2 = None"
  shows "read_write_transaction v db = (db, [ReadEv [(2, 2)]], Inl TypeError)"
proof -
  let ?tx = "\<lparr>snapshot = db, mutations = [], trace = []\<rparr>"
  have "Albums (snapshot ?tx) (2, 2) = Some r2"
    using assms(1) by simp
  from rwt_raises [OF update_albums_null2 [OF this assms(2)], of v] show ?thesis
    by simp
qed

lemma rwt_low:
  assumes "Albums db (2, 2) = Some r2" and "MarketingBudget r2 = Some b2" and "b2 < 300000"
  shows "read_write_transaction v db =
    (db, [ReadEv [(2, 2)]], Inl (ValueError funds_message))"
proof -
  let ?tx = "\<lparr>snapshot = db, mutations = [], trace = []\<rparr>"
  have "Albums (snapshot ?tx) (2, 2) = Some r2"
    using assms(1) by simp
  from rwt_raises [OF update_albums_low [OF this assms(2,3)], of v] show ?thesis
    by simp
qed

lemma rwt_missing1:
  assumes "Albums db (2, 2) = Some r2" and "MarketingBudget r2 = Some b2"
    and "\<not> b2 < 300000" and "Albums db (1, 1) = None"
  shows "read_write_transaction v db =
    (db, [ReadEv [(2, 2)], ReadEv [(1, 1)]], Inl IndexError)"
proof -
  let ?tx = "\<lparr>snapshot = db, mutations = [], trace = []\<rparr>"
  have "Albums (snapshot ?tx) (2, 2) = Some r2" and "Albums (snapshot ?tx) (1, 1) = None"
    using assms(1,4) by simp_all
  from rwt_raises [OF update_albums_missing1 [OF this(1) assms(2,3) this(2)], of v]
  show ?thesis
    by simp
qed

lemma rwt_null1:
  assumes "Albums db (2, 2) = Some r2" and "MarketingBudget r2 = Some b2"
    and "\<not> b2 < 300000"
    and "Albums db (1, 1) = Some r1" and "MarketingBudget r1 = None"
  shows "read_write_transaction v db =
    (db, [ReadEv [(2, 2)], ReadEv [(1, 1)]], Inl TypeError)"
proof -
  let ?tx = "\<lparr>snapshot = db, mutations = [], trace = []\<rparr>"
  have "Albums (snapshot ?tx) (2, 2) = Some r2" and "Albums (snapshot ?tx) (1, 1) = Some r1"
    using assms(1,4) by simp_all
  from rwt_raises [OF update_albums_null1 [OF this(1) assms(2,3) this(2) assms(5)], of v]
  show ?thesis
    by simp
qed

lemma rwt_conflict:
  assumes "Albums db (2, 2) = Some r2" and "MarketingBudget r2 = Some b2"
    and "\<not> b2 < 300000"
    and "Albums db (1, 1) = Some r1" and "MarketingBudget r1 = Some b1"
  shows "read_write_transaction Conflict db =
    (db,
     [ReadEv [(2, 2)], ReadEv [(1, 1)], PrintBudgets (b1 + 200000) (b2 - 200000),
      UpdateEv [(1, 1, b1 + 200000), (2, 2, b2 - 200000)]],
     Inl Aborted)"
proof -
  let ?tx = "\<lparr>snapshot = db, mutations = [], trace = []\<rparr>"
  have "Albums (snapshot ?tx) (2, 2) = Some r2" and "Albums (snapshot ?tx) (1, 1) = Some r1"
    using assms(1,4) by simp_all
  from run_conflict [where func = update_albums, OF update_albums_ok [OF this(1) assms(2,3) this(2) assms(5)]]
  show ?thesis
    by (simp add: read_write_transaction_def)
qed

lemma rwt_success:
  assumes "Albums db (2, 2) = Some r2" and "MarketingBudget r2 = Some b2"
    and "\<not> b2 < 300000"
    and "Albums db (1, 1) = Some r1" and "MarketingBudget r1 = Some b1"
  shows "read_write_transaction Success db =
    (db\<lparr>Albums := (Albums db)
         ((1, 1) \<mapsto> r1\<lparr>MarketingBudget := Some (b1 + 200000)\<rparr>,
          (2, 2) \<mapsto> r2\<lparr>MarketingBudget := Some (b2 - 200000)\<rparr>)\<rparr>,
     [ReadEv [(2, 2)], ReadEv [(1, 1)], PrintBudgets (b1 + 200000) (b2 - 200000),
      UpdateEv [(1, 1, b1 + 200000), (2, 2, b2 - 200000)], PrintComplete],
     Inr ())"
proof -
  let ?tx = "\<lparr>snapshot = db, mutations = [], trace = []\<rparr>"
  let ?tx' = "?tx\<lparr>mutations := mutations ?tx @ [(1, 1, b1 + 200000), (2, 2, b2 - 200000)],
        trace := trace ?tx @
          [ReadEv [(2, 2)], ReadEv [(1, 1)], PrintBudgets (b1 + 200000) (b2 - 200000),
           UpdateEv [(1, 1, b1 + 200000), (2, 2, b2 - 200000)]]\<rparr>"
  have "Albums (snapshot ?tx) (2, 2) = Some r2" and "Albums (snapshot ?tx) (1, 1) = Some r1"
    using assms(1,4) by simp_all
  from update_albums_ok [OF this(1) assms(2,3) this(2) assms(5)]
  have body: "update_albums ?tx = (?tx', Inr ())" .
  have committed: "commit Success ?tx' db =
      Inr (db\<lparr>Albums := (Albums db)
         ((1, 1) \<mapsto> r1\<lparr>MarketingBudget := Some (b1 + 200000)\<rparr>,
          (2, 2) \<mapsto> r2\<lparr>MarketingBudget := Some (b2 - 200000)\<rparr>)\<rparr>)"
    using assms(1,4) by (simp add: commit_def)
  show ?thesis
    unfolding read_write_transaction_def
    by (subst run_success [where func = update_albums, OF body committed]) simp
qed

text \<open>
  A commit that is aborted before the deadline: the attempt, then the rest of the call.
\<close>

lemma rwt_retry:
  assumes "Albums db (2, 2) = Some r2" and "MarketingBudget r2 = Some b2"
    and "\<not> b2 < 300000"
    and "Albums db (1, 1) = Some r1" and "MarketingBudget r1 = Some b1"
    and "read_write_transaction v db = (db', tr, res)"
  shows "read_write_transaction (Retry v) db =
    (db',
     [ReadEv [(2, 2)], ReadEv [(1, 1)], PrintBudgets (b1 + 200000) (b2 - 200000),
      UpdateEv [(1, 1, b1 + 200000), (2, 2, b2 - 200000)]] @ tr,
     res)"
proof -
  let ?tx = "\<lparr>snapshot = db, mutations = [], trace = []\<rparr>"
  have "Albums (snapshot ?tx) (2, 2) = Some r2" and "Albums (snapshot ?tx) (1, 1) = Some r1"
    using assms(1,4) by simp_all
  note retry = run_retry [where func = update_albums and v = v,
      OF update_albums_ok [OF this(1) assms(2,3) this(2) assms(5)]]
  obtain d t r where run: "run_in_transaction v db update_albums = (d, t, r)"
    by (cases "run_in_transaction v db update_albums") auto
  show ?thesis
  proof (cases r)
    case (Inl e)
    with run assms(6) retry show ?thesis
      by (auto simp: read_write_transaction_def)
  next
    case (Inr u)
    with run assms(6) retry show ?thesis
      by (auto simp: read_write_transaction_def)
  qed
qed

text \<open>
  When both albums have a budget and the check passes, the call ends in one of two ways,
  however often the store aborts a commit: with \<open>Aborted\<close> and the database as it was, or
  normally with the two budgets updated. Its trace holds nothing but the events of an
  attempt and the last line.
\<close>

lemma rwt_ok:
  assumes "Albums db (2, 2) = Some r2" and "MarketingBudget r2 = Some b2"
    and "\<not> b2 < 300000"
    and "Albums db (1, 1) = Some r1" and "MarketingBudget r1 = Some b1"
  shows "\<exists>tr. set tr \<subseteq>
        {ReadEv [(2, 2)], ReadEv [(1, 1)], PrintBudgets (b1 + 200000) (b2 - 200000),
         UpdateEv [(1, 1, b1 + 200000), (2, 2, b2 - 200000)], PrintComplete} \<and>
      (read_write_transaction v db = (db, tr, Inl Aborted) \<or>
       read_write_transaction v db =
         (db\<lparr>Albums := (Albums db)
              ((1, 1) \<mapsto> r1\<lparr>MarketingBudget := Some (b1 + 200000)\<rparr>,
               (2, 2) \<mapsto> r2\<lparr>MarketingBudget := Some (b2 - 200000)\<rparr>)\<rparr>,
          tr, Inr ()))"
proof (induction v)
  case Success
  have "set [ReadEv [(2, 2)], ReadEv [(1, 1)], PrintBudgets (b1 + 200000) (b2 - 200000),
      UpdateEv [(1, 1, b1 + 200000), (2, 2, b2 - 200000)], PrintComplete] \<subseteq>
        {ReadEv [(2, 2)], ReadEv [(1, 1)], PrintBudgets (b1 + 200000) (b2 - 200000),
         UpdateEv [(1, 1, b1 + 200000), (2, 2, b2 - 200000)], PrintComplete}"
    by simp
  with rwt_success [OF assms] show ?case by blast
next
  case Conflict
  have "set [ReadEv [(2, 2)], ReadEv [(1, 1)], PrintBudgets (b1 + 200000) (b2 - 200000),
      UpdateEv [(1, 1, b1 + 200000), (2, 2, b2 - 200000)]] \<subseteq>
        {ReadEv [(2, 2)], ReadEv [(1, 1)], PrintBudgets (b1 + 200000) (b2 - 200000),
         UpdateEv [(1, 1, b1 + 200000), (2, 2, b2 - 200000)], PrintComplete}"
    by simp
  with rwt_conflict [OF assms] show ?case by blast
next
  case (Retry v)
  then obtain tr where tr: "set tr \<subseteq>
        {ReadEv [(2, 2)], ReadEv [(1, 1)], PrintBudgets (b1 + 200000) (b2 - 200000),
         UpdateEv [(1, 1, b1 + 200000), (2, 2, b2 - 200000)], PrintComplete}"
    and run: "read_write_transaction v db = (db, tr, Inl Aborted) \<or>
       read_write_transaction v db =
         (db\<lparr>Albums := (Albums db)
              ((1, 1) \<mapsto> r1\<lparr>MarketingBudget := Some (b1 + 200000)\<rparr>,
               (2, 2) \<mapsto> r2\<lparr>MarketingBudget := Some (b2 - 200000)\<rparr>)\<rparr>,
          tr, Inr ())"
    by blast
  let ?t0 = "[ReadEv [(2, 2)], ReadEv [(1, 1)], PrintBudgets (b1 + 200000) (b2 - 200000),
      UpdateEv [(1, 1, b1 + 200000), (2, 2, b2 - 200000)]]"
  have sub: "set (?t0 @ tr) \<subseteq>
        {ReadEv [(2, 2)], ReadEv [(1, 1)], PrintBudgets (b1 + 200000) (b2 - 200000),
         UpdateEv [(1, 1, b1 + 200000), (2, 2, b2 - 200000)], PrintComplete}"
    using tr by auto
  from run show ?case
  proof
    assume "read_write_transaction v db = (db, tr, Inl Aborted)"
    from rwt_retry [OF assms this] sub show ?thesis by blast
  next
    assume "read_write_transaction v db =
         (db\<lparr>Albums := (Albums db)
              ((1, 1) \<mapsto> r1\<lparr>MarketingBudget := Some (b1 + 200000)\<rparr>,
               (2, 2) \<mapsto> r2\<lparr>MarketingBudget := Some (b2 - 200000)\<rparr>)\<rparr>,
          tr, Inr ())"
    from rwt_retry [OF assms this] sub show ?thesis by blast
  qed
qed

text \<open>Every database is on exactly one of these paths.\<close>

lemma database_cases [case_names missing2 null2 low missing1 null1 ok]:
  obtains
    "Albums db (2, 2) = None"
  | r2 where "Albums db (2, 2) = Some r2" and "MarketingBudget r2 = None"
  | r2 b2 where "Albums db (2, 2) = Some r2" and "MarketingBudget r2 = Some b2"
      and "b2 < 300000"
  | r2 b2 where "Albums db (2, 2) = Some r2" and "MarketingBudget r2 = Some b2"
      and "\<not> b2 < 300000" and "Albums db (1, 1) = None"
  | r2 b2 r1 where "Albums db (2, 2) = Some r2" and "MarketingBudget r2 = Some b2"
      and "\<not> b2 < 300000" and "Albums db (1, 1) = Some r1" and "MarketingBudget r1 = None"
  | r2 b2 r1 b1 where "Albums db (2, 2) = Some r2" and "MarketingBudget r2 = Some b2"
      and "\<not> b2 < 300000" and "Albums db (1, 1) = Some r1"
      and "MarketingBudget r1 = Some b1"
proof (cases "Albums db (2, 2)")
  case None
  then show ?thesis by (rule that(1))
next
  case (Some r2)
  note row2 = this
  show ?thesis
  proof (cases "MarketingBudget r2")
    case None
    with row2 show ?thesis by (rule that(2))
  next
    case (Some b2)
    note bud2 = this
    show ?thesis
    proof (cases "b2 < 300000")
      case True
      with row2 bud2 show ?thesis by (rule that(3))
    next
      case False
      note enough = this
      show ?thesis
      proof (cases "Albums db (1, 1)")
        case None
        with row2 bud2 enough show ?thesis by (rule that(4))
      next
        case (Some r1)
        note row1 = this
        show ?thesis
        proof (cases "MarketingBudget r1")
          case None
          with row2 bud2 enough row1 show ?thesis by (rule that(5))
        next
          case (Some b1)
          with row2 bud2 enough row1 show ?thesis by (rule that(6))
        qed
      qed
    qed
  qed
qed

text \<open>The budgets of the sample data.\<close>

lemma sample_data_albums:
  "Albums sample_data (1, 1) = Some \<lparr>AlbumTitle = Some ''Total Junk'', MarketingBudget = Some 100000\<rparr>"
  "Albums sample_data (2, 2) =
     Some \<lparr>AlbumTitle = Some ''Forever Hold Your Peace'', MarketingBudget = Some 500000\<rparr>"
  by (simp_all add: sample_data_def update_data_def insert_data_def create_database_def)

lemma sample_data_other:
  "Albums sample_data (1, 2) = Some \<lparr>AlbumTitle = Some ''Go, Go, Go'', MarketingBudget = None\<rparr>"
  "Singers sample_data 1 =
     Some \<lparr>FirstName = Some ''Marc'', LastName = Some ''Richards'', SingerInfo = None\<rparr>"
  by (simp_all add: sample_data_def update_data_def insert_data_def create_database_def)

lemma low_data_albums:
  "Albums (with_budget sample_data (2, 2) 250000) (1, 1) =
     Some \<lparr>AlbumTitle = Some ''Total Junk'', MarketingBudget = Some 100000\<rparr>"
  "Albums (with_budget sample_data (2, 2) 250000) (2, 2) =
     Some \<lparr>AlbumTitle = Some ''Forever Hold Your Peace'', MarketingBudget = Some 250000\<rparr>"
  by (simp_all add: with_budget_def sample_data_albums)

text \<open>
  A call whose commit the store aborts three times before accepting it runs the body
  four times: it reads the row (2,2) four times and commits the transfer once.
\<close>

lemma retried_call_reads_again:
  "\<exists>db' tr. read_write_transaction (Retry (Retry (Retry Success))) sample_data =
      (db', tr, Inr ()) \<and>
     length (filter (\<lambda>e. e = ReadEv [(2, 2)]) tr) = 4 \<and>
     Albums db' (1, 1) =
       Some \<lparr>AlbumTitle = Some ''Total Junk'', MarketingBudget = Some 300000\<rparr> \<and>
     Albums db' (2, 2) =
       Some \<lparr>AlbumTitle = Some ''Forever Hold Your Peace'', MarketingBudget = Some 300000\<rparr>"
  using rwt_retry [OF sample_data_albums(2) _ _ sample_data_albums(1) _
      rwt_retry [OF sample_data_albums(2) _ _ sample_data_albums(1) _
      rwt_retry [OF sample_data_albums(2) _ _ sample_data_albums(1) _
      rwt_success [OF sample_data_albums(2) _ _ sample_data_albums(1)]]]]
  by simp

section \<open>Properties of the read-write transaction\<close>

text \<open>
  C1. Whenever both albums exist with a budget and the budget of the second album (the
  row the spec calls the destination, key (2,2)) is at least the threshold 300000, a
  transaction the store commits ends normally, the budget of the first album (the
  source, key (1,1)) is its old budget plus the transfer amount and the budget of the
  second album is its old budget minus the transfer amount; these are also the two
  budgets the snippet prints. On the sample data (budgets 100000 and 500000) both
  budgets are 300000 afterwards.
\<close>

theorem C1_transfer_commits:
  "(Albums db (1, 1) = Some r1 \<and> MarketingBudget r1 = Some b1 \<and>
    Albums db (2, 2) = Some r2 \<and> MarketingBudget r2 = Some b2 \<and> 300000 \<le> b2 \<longrightarrow>
      (\<exists>db' tr. read_write_transaction Success db = (db', tr, Inr ()) \<and>
         Albums db' (1, 1) = Some (r1\<lparr>MarketingBudget := Some (b1 + transfer_amount)\<rparr>) \<and>
         Albums db' (2, 2) = Some (r2\<lparr>MarketingBudget := Some (b2 - transfer_amount)\<rparr>) \<and>
         PrintBudgets (b1 + transfer_amount) (b2 - transfer_amount) \<in> set tr)) \<and>
   (\<exists>db' tr t1 t2. read_write_transaction Success sample_data = (db', tr, Inr ()) \<and>
      Albums db' (1, 1) = Some \<lparr>AlbumTitle = t1, MarketingBudget = Some 300000\<rparr> \<and>
      Albums db' (2, 2) = Some \<lparr>AlbumTitle = t2, MarketingBudget = Some 300000\<rparr> \<and>
      PrintBudgets 300000 300000 \<in> set tr)"
proof (intro conjI impI)
  assume h: "Albums db (1, 1) = Some r1 \<and> MarketingBudget r1 = Some b1 \<and>
    Albums db (2, 2) = Some r2 \<and> MarketingBudget r2 = Some b2 \<and> 300000 \<le> b2"
  then have "\<not> b2 < 300000" by simp
  from rwt_success [of db r2 b2 r1 b1] h this
  show "\<exists>db' tr. read_write_transaction Success db = (db', tr, Inr ()) \<and>
         Albums db' (1, 1) = Some (r1\<lparr>MarketingBudget := Some (b1 + transfer_amount)\<rparr>) \<and>
         Albums db' (2, 2) = Some (r2\<lparr>MarketingBudget := Some (b2 - transfer_amount)\<rparr>) \<and>
         PrintBudgets (b1 + transfer_amount) (b2 - transfer_amount) \<in> set tr"
    by (simp add: transfer_amount_def)
next
  have "\<not> (500000::int) < 300000" by simp
  from rwt_success [OF sample_data_albums(2) _ this sample_data_albums(1)]
  show "\<exists>db' tr t1 t2. read_write_transaction Success sample_data = (db', tr, Inr ()) \<and>
      Albums db' (1, 1) = Some \<lparr>AlbumTitle = t1, MarketingBudget = Some 300000\<rparr> \<and>
      Albums db' (2, 2) = Some \<lparr>AlbumTitle = t2, MarketingBudget = Some 300000\<rparr> \<and>
      PrintBudgets 300000 300000 \<in> set tr"
    by simp
qed

theorem C1_transfer_commits_witness:
  "Albums sample_data (1, 1) =
     Some \<lparr>AlbumTitle = Some ''Total Junk'', MarketingBudget = Some 100000\<rparr> \<and>
   Albums sample_data (2, 2) =
     Some \<lparr>AlbumTitle = Some ''Forever Hold Your Peace'', MarketingBudget = Some 500000\<rparr> \<and>
   (\<exists>db' tr. read_write_transaction Success sample_data = (db', tr, Inr ()) \<and>
      Albums db' (1, 1) =
        Some \<lparr>AlbumTitle = Some ''Total Junk'', MarketingBudget = Some 300000\<rparr> \<and>
      Albums db' (2, 2) =
        Some \<lparr>AlbumTitle = Some ''Forever Hold Your Peace'', MarketingBudget = Some 300000\<rparr> \<and>
      PrintBudgets 300000 300000 \<in> set tr)"
  using C1_transfer_commits [THEN conjunct1, of sample_data
      "\<lparr>AlbumTitle = Some ''Total Junk'', MarketingBudget = Some 100000\<rparr>" 100000
      "\<lparr>AlbumTitle = Some ''Forever Hold Your Peace'', MarketingBudget = Some 500000\<rparr>" 500000]
  by (simp add: sample_data_albums transfer_amount_def)

text \<open>
  C2. The transaction raises the ValueError of the funds check (the spec's
  Aborted(InsufficientFunds)) if and only if the second album exists with a budget
  strictly below 300000; the database is then the one before the call, whatever the
  store would have answered to a commit. With budgets 100000 and 250000 the error is
  raised after the one read and both rows are as they were.
\<close>

theorem C2_insufficient_funds:
  "((\<exists>db' tr m. read_write_transaction v db = (db', tr, Inl (ValueError m))) =
      (\<exists>r2 b2. Albums db (2, 2) = Some r2 \<and> MarketingBudget r2 = Some b2 \<and> b2 < 300000)) \<and>
   (read_write_transaction v db = (db', tr, Inl (ValueError m)) \<longrightarrow>
      db' = db \<and> m = funds_message \<and> tr = [ReadEv [(2, 2)]]) \<and>
   (Albums db (1, 1) = Some r1 \<and> MarketingBudget r1 = Some 100000 \<and>
    Albums db (2, 2) = Some r2 \<and> MarketingBudget r2 = Some 250000 \<longrightarrow>
      (\<exists>db' tr. read_write_transaction v db = (db', tr, Inl (ValueError funds_message)) \<and>
         Albums db' (1, 1) = Some r1 \<and> Albums db' (2, 2) = Some r2 \<and> db' = db))"
proof -
  have path: "read_write_transaction v db = (db', tr, Inl (ValueError m)) \<Longrightarrow>
      (\<exists>r2 b2. Albums db (2, 2) = Some r2 \<and> MarketingBudget r2 = Some b2 \<and> b2 < 300000) \<and>
      db' = db \<and> m = funds_message \<and> tr = [ReadEv [(2, 2)]]" for db' tr m
  proof (cases db rule: database_cases)
    case missing2
    assume "read_write_transaction v db = (db', tr, Inl (ValueError m))"
    with rwt_missing2 [OF missing2, of v] show ?thesis by simp
  next
    case (null2 r2)
    assume "read_write_transaction v db = (db', tr, Inl (ValueError m))"
    with rwt_null2 [OF null2, of v] show ?thesis by simp
  next
    case (low r2 b2)
    assume "read_write_transaction v db = (db', tr, Inl (ValueError m))"
    with rwt_low [OF low, of v] low show ?thesis by auto
  next
    case (missing1 r2 b2)
    assume "read_write_transaction v db = (db', tr, Inl (ValueError m))"
    with rwt_missing1 [OF missing1, of v] show ?thesis by simp
  next
    case (null1 r2 b2 r1)
    assume "read_write_transaction v db = (db', tr, Inl (ValueError m))"
    with rwt_null1 [OF null1, of v] show ?thesis by simp
  next
    case (ok r2 b2 r1 b1)
    assume "read_write_transaction v db = (db', tr, Inl (ValueError m))"
    with rwt_ok [OF ok, of v] show ?thesis by auto
  qed
  have iff: "(\<exists>db' tr m. read_write_transaction v db = (db', tr, Inl (ValueError m))) =
      (\<exists>r2 b2. Albums db (2, 2) = Some r2 \<and> MarketingBudget r2 = Some b2 \<and> b2 < 300000)"
  proof
    assume "\<exists>db' tr m. read_write_transaction v db = (db', tr, Inl (ValueError m))"
    then obtain db' tr m where "read_write_transaction v db = (db', tr, Inl (ValueError m))"
      by blast
    from path [OF this]
    show "\<exists>r2 b2. Albums db (2, 2) = Some r2 \<and> MarketingBudget r2 = Some b2 \<and> b2 < 300000"
      by blast
  next
    assume "\<exists>r2 b2. Albums db (2, 2) = Some r2 \<and> MarketingBudget r2 = Some b2 \<and> b2 < 300000"
    then obtain r2 b2 where "Albums db (2, 2) = Some r2" and "MarketingBudget r2 = Some b2"
      and "b2 < 300000"
      by blast
    from rwt_low [OF this, of v]
    show "\<exists>db' tr m. read_write_transaction v db = (db', tr, Inl (ValueError m))"
      by blast
  qed
  have scenario: "\<exists>db' tr. read_write_transaction v db = (db', tr, Inl (ValueError funds_message)) \<and>
         Albums db' (1, 1) = Some r1 \<and> Albums db' (2, 2) = Some r2 \<and> db' = db"
    if h: "Albums db (1, 1) = Some r1 \<and> MarketingBudget r1 = Some 100000 \<and>
      Albums db (2, 2) = Some r2 \<and> MarketingBudget r2 = Some 250000"
  proof -
    have "(250000::int) < 300000" by simp
    from rwt_low [of db r2 250000 v] h this show ?thesis by simp
  qed
  from iff path scenario show ?thesis by blast
qed

theorem C2_insufficient_funds_witness:
  "Albums (with_budget sample_data (2, 2) 250000) (1, 1) =
     Some \<lparr>AlbumTitle = Some ''Total Junk'', MarketingBudget = Some 100000\<rparr> \<and>
   Albums (with_budget sample_data (2, 2) 250000) (2, 2) =
     Some \<lparr>AlbumTitle = Some ''Forever Hold Your Peace'', MarketingBudget = Some 250000\<rparr> \<and>
   read_write_transaction Success (with_budget sample_data (2, 2) 250000) =
     (with_budget sample_data (2, 2) 250000, [ReadEv [(2, 2)]],
      Inl (ValueError funds_message))"
proof -
  let ?db = "with_budget sample_data (2, 2) 250000"
  let ?r1 = "\<lparr>AlbumTitle = Some ''Total Junk'', MarketingBudget = Some 100000\<rparr>"
  let ?r2 = "\<lparr>AlbumTitle = Some ''Forever Hold Your Peace'', MarketingBudget = Some 250000\<rparr>"
  have rows: "Albums ?db (1, 1) = Some ?r1 \<and> MarketingBudget ?r1 = Some 100000 \<and>
      Albums ?db (2, 2) = Some ?r2 \<and> MarketingBudget ?r2 = Some 250000"
    by (simp add: low_data_albums)
  from C2_insufficient_funds [of Success ?db _ _ _ ?r1 ?r2] rows
  obtain db' tr where run: "read_write_transaction Success ?db =
      (db', tr, Inl (ValueError funds_message))"
    by blast
  from C2_insufficient_funds [of Success ?db db' tr funds_message] run
  have "db' = ?db \<and> tr = [ReadEv [(2, 2)]]"
    by blast
  with run rows show ?thesis by simp
qed

text \<open>
  C3. Conservation: whenever the transaction ends normally, both albums had a budget
  before and have one after, and the two new budgets add up to what the two old ones
  added up to.
\<close>

theorem C3_conservation:
  assumes "read_write_transaction v db = (db', tr, Inr ())"
  shows "\<exists>r1 b1 r2 b2 r1' b1' r2' b2'.
    Albums db (1, 1) = Some r1 \<and> MarketingBudget r1 = Some b1 \<and>
    Albums db (2, 2) = Some r2 \<and> MarketingBudget r2 = Some b2 \<and>
    Albums db' (1, 1) = Some r1' \<and> MarketingBudget r1' = Some b1' \<and>
    Albums db' (2, 2) = Some r2' \<and> MarketingBudget r2' = Some b2' \<and>
    b1' + b2' = b1 + b2"
proof (cases db rule: database_cases)
  case missing2
  from rwt_missing2 [OF this, of v] assms show ?thesis by simp
next
  case (null2 r2)
  from rwt_null2 [OF this, of v] assms show ?thesis by simp
next
  case (low r2 b2)
  from rwt_low [OF this, of v] assms show ?thesis by simp
next
  case (missing1 r2 b2)
  from rwt_missing1 [OF this, of v] assms show ?thesis by simp
next
  case (null1 r2 b2 r1)
  from rwt_null1 [OF this, of v] assms show ?thesis by simp
next
  case (ok r2 b2 r1 b1)
  show ?thesis
  proof -
    from rwt_ok [OF ok, of v] assms
    have db': "db' = db\<lparr>Albums := (Albums db)
         ((1, 1) \<mapsto> r1\<lparr>MarketingBudget := Some (b1 + 200000)\<rparr>,
          (2, 2) \<mapsto> r2\<lparr>MarketingBudget := Some (b2 - 200000)\<rparr>)\<rparr>"
      by auto
    have "Albums db' (1, 1) = Some (r1\<lparr>MarketingBudget := Some (b1 + 200000)\<rparr>)"
      and "Albums db' (2, 2) = Some (r2\<lparr>MarketingBudget := Some (b2 - 200000)\<rparr>)"
      by (simp_all add: db')
    moreover have "b1 + 200000 + (b2 - 200000) = b1 + b2"
      by simp
    ultimately show ?thesis
      using ok by simp
  qed
qed

theorem C3_conservation_witness:
  "\<exists>db' tr r1' r2'. read_write_transaction Success sample_data = (db', tr, Inr ()) \<and>
     Albums db' (1, 1) = Some r1' \<and> Albums db' (2, 2) = Some r2' \<and>
     MarketingBudget r1' = Some 300000 \<and> MarketingBudget r2' = Some 300000 \<and>
     (300000::int) + 300000 = 100000 + 500000"
proof -
  have "\<not> (500000::int) < 300000" by simp
  from rwt_success [OF sample_data_albums(2) _ this sample_data_albums(1)]
  obtain db' tr where run: "read_write_transaction Success sample_data = (db', tr, Inr ())"
    by simp
  from C3_conservation [OF run] obtain r1 b1 r2 b2 r1' b1' r2' b2' where
    c: "Albums sample_data (1, 1) = Some r1" "MarketingBudget r1 = Some b1"
       "Albums sample_data (2, 2) = Some r2" "MarketingBudget r2 = Some b2"
       "Albums db' (1, 1) = Some r1'" "MarketingBudget r1' = Some b1'"
       "Albums db' (2, 2) = Some r2'" "MarketingBudget r2' = Some b2'"
       "b1' + b2' = b1 + b2"
    by blast
  from c(1-4) have old: "b1 = 100000" "b2 = 500000"
    by (auto simp: sample_data_albums)
  from rwt_success [OF sample_data_albums(2) _ \<open>\<not> (500000::int) < 300000\<close> sample_data_albums(1)] run
  have "Albums db' (1, 1) = Some \<lparr>AlbumTitle = Some ''Total Junk'', MarketingBudget = Some 300000\<rparr>"
    and "Albums db' (2, 2) =
      Some \<lparr>AlbumTitle = Some ''Forever Hold Your Peace'', MarketingBudget = Some 300000\<rparr>"
    by auto
  with c(5-8) have new: "b1' = 300000" "b2' = 300000"
    by auto
  from run c(5-8) new show ?thesis
    by auto
qed

text \<open>
  C4. Atomicity of aborts: whenever \<^verbatim>\<open>read_write_transaction\<close> ends with an exception
  (the funds check, a row that is missing, a budget that is NULL, or a commit the store
  refuses), the database is the one before the call. The body stages nothing on a path
  that raises, and a trace that holds an update belongs to a run whose funds check
  passed: the check comes before any write is staged.
\<close>

theorem C4_abort_atomic:
  "(read_write_transaction v db = (db', tr, Inl e) \<longrightarrow> db' = db) \<and>
   (update_albums tx = (tx', Inl e) \<longrightarrow>
      mutations tx' = mutations tx \<and> snapshot tx' = snapshot tx) \<and>
   (read_write_transaction v db = (db', tr, res) \<and> UpdateEv vals \<in> set tr \<longrightarrow>
      (\<exists>r2 b2. Albums db (2, 2) = Some r2 \<and> MarketingBudget r2 = Some b2 \<and> 300000 \<le> b2))"
proof -
  have unchanged: "db' = db" if run: "read_write_transaction v db = (db', tr, Inl e)"
  proof (cases db rule: database_cases)
    case missing2
    from rwt_missing2 [OF this, of v] run show ?thesis by simp
  next
    case (null2 r2)
    from rwt_null2 [OF this, of v] run show ?thesis by simp
  next
    case (low r2 b2)
    from rwt_low [OF this, of v] run show ?thesis by simp
  next
    case (missing1 r2 b2)
    from rwt_missing1 [OF this, of v] run show ?thesis by simp
  next
    case (null1 r2 b2 r1)
    from rwt_null1 [OF this, of v] run show ?thesis by simp
  next
    case (ok r2 b2 r1 b1)
    from rwt_ok [OF this, of v] run show ?thesis
      by auto
  qed
  have unstaged: "mutations tx' = mutations tx \<and> snapshot tx' = snapshot tx"
    if body: "update_albums tx = (tx', Inl e)"
  proof (cases "snapshot tx" rule: database_cases)
    case missing2
    from update_albums_missing2 [OF this] body show ?thesis by auto
  next
    case (null2 r2)
    from update_albums_null2 [OF this] body show ?thesis by auto
  next
    case (low r2 b2)
    from update_albums_low [OF this] body show ?thesis by auto
  next
    case (missing1 r2 b2)
    from update_albums_missing1 [OF this] body show ?thesis by auto
  next
    case (null1 r2 b2 r1)
    from update_albums_null1 [OF this] body show ?thesis by auto
  next
    case (ok r2 b2 r1 b1)
    from update_albums_ok [OF this] body show ?thesis by simp
  qed
  have checked: "\<exists>r2 b2. Albums db (2, 2) = Some r2 \<and> MarketingBudget r2 = Some b2 \<and> 300000 \<le> b2"
    if run: "read_write_transaction v db = (db', tr, res)" and upd: "UpdateEv vals \<in> set tr"
  proof (cases db rule: database_cases)
    case missing2
    from rwt_missing2 [OF this, of v] run upd show ?thesis by auto
  next
    case (null2 r2)
    from rwt_null2 [OF this, of v] run upd show ?thesis by auto
  next
    case (low r2 b2)
    from rwt_low [OF this, of v] run upd show ?thesis by auto
  next
    case (missing1 r2 b2)
    from rwt_missing1 [OF this, of v] run upd show ?thesis by auto
  next
    case (null1 r2 b2 r1)
    from rwt_null1 [OF this, of v] run upd show ?thesis by auto
  next
    case (ok r2 b2 r1 b1)
    then show ?thesis by simp
  qed
  from unchanged unstaged checked show ?thesis by blast
qed

theorem C4_abort_atomic_witness:
  "(\<exists>tr. read_write_transaction Success (with_budget sample_data (2, 2) 250000) =
      (with_budget sample_data (2, 2) 250000, tr, Inl (ValueError funds_message))) \<and>
   (\<exists>tr. read_write_transaction Success create_database =
      (create_database, tr, Inl IndexError)) \<and>
   (\<exists>tr. read_write_transaction Conflict sample_data = (sample_data, tr, Inl Aborted))"
proof -
  have "(250000::int) < 300000" by simp
  from rwt_low [OF low_data_albums(2) _ this, of Success]
  obtain d1 t1 where run1: "read_write_transaction Success (with_budget sample_data (2, 2) 250000) =
      (d1, t1, Inl (ValueError funds_message))"
    by simp
  have "Albums create_database (2, 2) = None"
    by (simp add: create_database_def)
  from rwt_missing2 [OF this, of Success]
  obtain d2 t2 where run2: "read_write_transaction Success create_database =
      (d2, t2, Inl IndexError)"
    by simp
  have "\<not> (500000::int) < 300000" by simp
  from rwt_conflict [OF sample_data_albums(2) _ this sample_data_albums(1)]
  obtain d3 t3 where run3: "read_write_transaction Conflict sample_data = (d3, t3, Inl Aborted)"
    by simp
  from C4_abort_atomic [THEN conjunct1, rule_format, OF run1]
    C4_abort_atomic [THEN conjunct1, rule_format, OF run2]
    C4_abort_atomic [THEN conjunct1, rule_format, OF run3]
  have "d1 = with_budget sample_data (2, 2) 250000" and "d2 = create_database"
    and "d3 = sample_data"
    by simp_all
  with run1 run2 run3 show ?thesis by simp
qed

text \<open>
  C5. When the key (2,2) of the second album names no row, the read returns no row,
  taking its first element raises IndexError (the spec's RowNotFound), the exception
  reaches the caller of \<^verbatim>\<open>read_write_transaction\<close> as it is, the database is unchanged
  and the one read is all the transaction did. IndexError means nothing else: it is
  raised exactly when one of the two keys names no row at the time it is read.
\<close>

theorem C5_row_not_found:
  "(Albums db (2, 2) = None \<longrightarrow>
      read_write_transaction v db = (db, [ReadEv [(2, 2)]], Inl IndexError) \<and>
      update_albums \<lparr>snapshot = db, mutations = [], trace = []\<rparr> =
        (\<lparr>snapshot = db, mutations = [], trace = [ReadEv [(2, 2)]]\<rparr>, Inl IndexError)) \<and>
   ((\<exists>db' tr. read_write_transaction v db = (db', tr, Inl IndexError)) =
      (Albums db (2, 2) = None \<or>
       (\<exists>r2 b2. Albums db (2, 2) = Some r2 \<and> MarketingBudget r2 = Some b2 \<and>
          \<not> b2 < 300000 \<and> Albums db (1, 1) = None)))"
proof -
  let ?tx = "\<lparr>snapshot = db, mutations = [], trace = []\<rparr>"
  let ?missing = "Albums db (2, 2) = None \<or>
    (\<exists>r2 b2. Albums db (2, 2) = Some r2 \<and> MarketingBudget r2 = Some b2 \<and>
       \<not> b2 < 300000 \<and> Albums db (1, 1) = None)"
  have caller: "read_write_transaction v db = (db, [ReadEv [(2, 2)]], Inl IndexError)"
    if "Albums db (2, 2) = None"
    by (rule rwt_missing2 [OF that])
  have body: "update_albums ?tx =
      (\<lparr>snapshot = db, mutations = [], trace = [ReadEv [(2, 2)]]\<rparr>, Inl IndexError)"
    if none: "Albums db (2, 2) = None"
  proof -
    have "Albums (snapshot ?tx) (2, 2) = None"
      using none by simp
    from update_albums_missing2 [OF this] show ?thesis by simp
  qed
  have only: ?missing if run: "read_write_transaction v db = (db', tr, Inl IndexError)"
    for db' tr
  proof (cases db rule: database_cases)
    case missing2
    then show ?thesis by simp
  next
    case (null2 r2)
    from rwt_null2 [OF this, of v] run show ?thesis by simp
  next
    case (low r2 b2)
    from rwt_low [OF this, of v] run show ?thesis by simp
  next
    case (missing1 r2 b2)
    then show ?thesis by simp
  next
    case (null1 r2 b2 r1)
    from rwt_null1 [OF this, of v] run show ?thesis by simp
  next
    case (ok r2 b2 r1 b1)
    from rwt_ok [OF this, of v] run show ?thesis
      by auto
  qed
  have raised: "\<exists>db' tr. read_write_transaction v db = (db', tr, Inl IndexError)" if ?missing
    using that
  proof
    assume "Albums db (2, 2) = None"
    from rwt_missing2 [OF this, of v] show ?thesis by blast
  next
    assume "\<exists>r2 b2. Albums db (2, 2) = Some r2 \<and> MarketingBudget r2 = Some b2 \<and>
       \<not> b2 < 300000 \<and> Albums db (1, 1) = None"
    then obtain r2 b2 where "Albums db (2, 2) = Some r2" and "MarketingBudget r2 = Some b2"
      and "\<not> b2 < 300000" and "Albums db (1, 1) = None"
      by blast
    from rwt_missing1 [OF this, of v] show ?thesis by blast
  qed
  from caller body only raised show ?thesis by blast
qed

theorem C5_row_not_found_witness:
  "Albums create_database (2, 2) = None \<and>
   read_write_transaction Success create_database =
     (create_database, [ReadEv [(2, 2)]], Inl IndexError)"
proof -
  have "Albums create_database (2, 2) = None"
    by (simp add: create_database_def)
  with C5_row_not_found [THEN conjunct1, rule_format, OF this, of Success] show ?thesis
    by simp
qed

text \<open>
  C6. When both budgets are non-negative before a transaction that ends normally, both
  are non-negative after it; the debited budget is even at least 100000, since the check
  demands 300000 and the transfer takes 200000.
\<close>

theorem C6_balances_nonnegative:
  assumes "Albums db (1, 1) = Some r1" and "MarketingBudget r1 = Some b1"
    and "Albums db (2, 2) = Some r2" and "MarketingBudget r2 = Some b2"
    and "0 \<le> b1" and "0 \<le> b2"
    and "read_write_transaction v db = (db', tr, Inr ())"
  shows "\<exists>r1' b1' r2' b2'.
    Albums db' (1, 1) = Some r1' \<and> MarketingBudget r1' = Some b1' \<and> 0 \<le> b1' \<and>
    Albums db' (2, 2) = Some r2' \<and> MarketingBudget r2' = Some b2' \<and> 0 \<le> b2' \<and>
    300000 - transfer_amount \<le> b2'"
proof (cases "b2 < 300000")
  case True
  from rwt_low [OF assms(3,4) this, of v] assms(7) show ?thesis by simp
next
  case False
  note ok = assms(3,4) False assms(1,2)
  show ?thesis
  proof -
    from rwt_ok [OF ok, of v] assms(7)
    have db': "db' = db\<lparr>Albums := (Albums db)
         ((1, 1) \<mapsto> r1\<lparr>MarketingBudget := Some (b1 + 200000)\<rparr>,
          (2, 2) \<mapsto> r2\<lparr>MarketingBudget := Some (b2 - 200000)\<rparr>)\<rparr>"
      by auto
    have "Albums db' (1, 1) = Some (r1\<lparr>MarketingBudget := Some (b1 + 200000)\<rparr>)"
      and "Albums db' (2, 2) = Some (r2\<lparr>MarketingBudget := Some (b2 - 200000)\<rparr>)"
      by (simp_all add: db')
    moreover have "0 \<le> b1 + 200000" and "0 \<le> b2 - 200000" and "100000 \<le> b2 - 200000"
      using assms(5) False by simp_all
    ultimately show ?thesis
      by (simp add: transfer_amount_def)
  qed
qed

theorem C6_balances_nonnegative_witness:
  "\<exists>db' tr r1' b1' r2' b2'.
     read_write_transaction Success sample_data = (db', tr, Inr ()) \<and>
     Albums db' (1, 1) = Some r1' \<and> MarketingBudget r1' = Some b1' \<and> 0 \<le> b1' \<and>
     Albums db' (2, 2) = Some r2' \<and> MarketingBudget r2' = Some b2' \<and> 0 \<le> b2'"
proof -
  have "\<not> (500000::int) < 300000" by simp
  from rwt_success [OF sample_data_albums(2) _ this sample_data_albums(1)]
  obtain db' tr where run: "read_write_transaction Success sample_data = (db', tr, Inr ())"
    by simp
  have "(0::int) \<le> 100000" and "(0::int) \<le> 500000"
    by simp_all
  from C6_balances_nonnegative [OF sample_data_albums(1) _ sample_data_albums(2) _ _ _ run,
      of 100000 500000] this
  show ?thesis
    using run by auto
qed

text \<open>
  C7. Step order, attempt by attempt: the first thing every run of the transaction body
  does is read the row (2,2), and it reads it once. The row (1,1) is read only in a run
  where the row (2,2) had a budget that passed the funds check; a run that raises the
  ValueError of the check has done the one read and nothing else.
\<close>

theorem C7_step_order:
  assumes "update_albums tx = (tx', res)"
  shows "(\<exists>es. trace tx' = trace tx @ ReadEv [(2, 2)] # es \<and> ReadEv [(2, 2)] \<notin> set es \<and>
       (ReadEv [(1, 1)] \<in> set es \<longrightarrow>
          (\<exists>r2 b2. Albums (snapshot tx) (2, 2) = Some r2 \<and> MarketingBudget r2 = Some b2 \<and>
             \<not> b2 < 300000))) \<and>
    ((\<exists>m. res = Inl (ValueError m)) \<longrightarrow>
       trace tx' = trace tx @ [ReadEv [(2, 2)]] \<and> mutations tx' = mutations tx)"
proof (cases "snapshot tx" rule: database_cases)
  case missing2
  from update_albums_missing2 [OF this] assms show ?thesis by auto
next
  case (null2 r2)
  from update_albums_null2 [OF this] assms show ?thesis by auto
next
  case (low r2 b2)
  from update_albums_low [OF this] assms show ?thesis by auto
next
  case (missing1 r2 b2)
  from update_albums_missing1 [OF this] assms missing1(1-3) show ?thesis by auto
next
  case (null1 r2 b2 r1)
  from update_albums_null1 [OF this] assms null1(1-3) show ?thesis by auto
next
  case (ok r2 b2 r1 b1)
  from update_albums_ok [OF this] assms ok(1-3) show ?thesis by auto
qed

theorem C7_step_order_witness:
  "(\<exists>tx' es. update_albums \<lparr>snapshot = sample_data, mutations = [], trace = []\<rparr> =
        (tx', Inr ()) \<and>
      trace tx' = ReadEv [(2, 2)] # es \<and> ReadEv [(1, 1)] \<in> set es) \<and>
   (\<exists>tx'. update_albums
        \<lparr>snapshot = with_budget sample_data (2, 2) 250000, mutations = [], trace = []\<rparr> =
        (tx', Inl (ValueError funds_message)) \<and>
      trace tx' = [ReadEv [(2, 2)]])"
proof -
  let ?tx = "\<lparr>snapshot = sample_data, mutations = [], trace = []\<rparr>"
  let ?low = "\<lparr>snapshot = with_budget sample_data (2, 2) 250000, mutations = [], trace = []\<rparr>"
  have "Albums (snapshot ?tx) (2, 2) =
      Some \<lparr>AlbumTitle = Some ''Forever Hold Your Peace'', MarketingBudget = Some 500000\<rparr>"
    and "Albums (snapshot ?tx) (1, 1) =
      Some \<lparr>AlbumTitle = Some ''Total Junk'', MarketingBudget = Some 100000\<rparr>"
    and "\<not> (500000::int) < 300000"
    by (simp_all add: sample_data_albums)
  from update_albums_ok [OF this(1) _ this(3) this(2)]
  obtain tx1 where run1: "update_albums ?tx = (tx1, Inr ())"
    and in1: "ReadEv [(1, 1)] \<in> set (trace tx1)"
    by simp
  from C7_step_order [OF run1] in1 have
    "\<exists>es. trace tx1 = ReadEv [(2, 2)] # es \<and> ReadEv [(1, 1)] \<in> set es"
    by auto
  with run1 have first: "\<exists>tx' es. update_albums ?tx = (tx', Inr ()) \<and>
      trace tx' = ReadEv [(2, 2)] # es \<and> ReadEv [(1, 1)] \<in> set es"
    by blast
  have "Albums (snapshot ?low) (2, 2) =
      Some \<lparr>AlbumTitle = Some ''Forever Hold Your Peace'', MarketingBudget = Some 250000\<rparr>"
    and "(250000::int) < 300000"
    by (simp_all add: low_data_albums)
  from update_albums_low [OF this(1) _ this(2)]
  obtain tx2 where run2: "update_albums ?low = (tx2, Inl (ValueError funds_message))"
    by simp
  from C7_step_order [OF run2] have "trace tx2 = [ReadEv [(2, 2)]]"
    by simp
  with run2 first show ?thesis by blast
qed

text \<open>
  C8. Determinism: the outcome of the transaction body, the rows it stages and its
  trace are a function of what its two reads return. Two runs of the body, on any two
  databases, whose reads of the rows (2,2) and (1,1) return the same, end the same way
  and stage the same values.
\<close>

theorem C8_deterministic:
  assumes "fst (transaction_read tx [(2, 2)]) = fst (transaction_read tx' [(2, 2)])"
    and "fst (transaction_read tx [(1, 1)]) = fst (transaction_read tx' [(1, 1)])"
    and "mutations tx = mutations tx'" and "trace tx = trace tx'"
  shows "snd (update_albums tx) = snd (update_albums tx') \<and>
    mutations (fst (update_albums tx)) = mutations (fst (update_albums tx')) \<and>
    trace (fst (update_albums tx)) = trace (fst (update_albums tx'))"
  using assms
  by (auto simp: update_albums_def transaction_read_def List.map_filter_simps item0_def
      py_lt_def py_sub_def py_add_def transaction_update_def
      split: option.splits sum.splits list.splits if_splits)

theorem C8_deterministic_witness:
  "snd (update_albums \<lparr>snapshot = sample_data, mutations = [], trace = []\<rparr>) =
     snd (update_albums
       \<lparr>snapshot = sample_data\<lparr>Singers := Map.empty\<rparr>, mutations = [], trace = []\<rparr>) \<and>
   mutations (fst (update_albums \<lparr>snapshot = sample_data, mutations = [], trace = []\<rparr>)) =
     mutations (fst (update_albums
       \<lparr>snapshot = sample_data\<lparr>Singers := Map.empty\<rparr>, mutations = [], trace = []\<rparr>)) \<and>
   mutations (fst (update_albums \<lparr>snapshot = sample_data, mutations = [], trace = []\<rparr>)) =
     [(1, 1, 300000), (2, 2, 300000)]"
proof -
  let ?tx = "\<lparr>snapshot = sample_data, mutations = [], trace = []\<rparr>"
  let ?tx' = "\<lparr>snapshot = sample_data\<lparr>Singers := Map.empty\<rparr>, mutations = [], trace = []\<rparr>"
  have rows: "Albums (snapshot ?tx) (2, 2) = Albums (snapshot ?tx') (2, 2)"
    "Albums (snapshot ?tx) (1, 1) = Albums (snapshot ?tx') (1, 1)"
    by simp_all
  have reads: "fst (transaction_read ?tx [(2, 2)]) = fst (transaction_read ?tx' [(2, 2)])"
    "fst (transaction_read ?tx [(1, 1)]) = fst (transaction_read ?tx' [(1, 1)])"
    using rows by (simp_all add: transaction_read_def)
  have same: "mutations ?tx = mutations ?tx'" "trace ?tx = trace ?tx'"
    by simp_all
  have "Albums (snapshot ?tx) (2, 2) =
      Some \<lparr>AlbumTitle = Some ''Forever Hold Your Peace'', MarketingBudget = Some 500000\<rparr>"
    and "Albums (snapshot ?tx) (1, 1) =
      Some \<lparr>AlbumTitle = Some ''Total Junk'', MarketingBudget = Some 100000\<rparr>"
    and "\<not> (500000::int) < 300000"
    by (simp_all add: sample_data_albums)
  from update_albums_ok [OF this(1) _ this(3) this(2)]
  have "mutations (fst (update_albums ?tx)) = [(1, 1, 300000), (2, 2, 300000)]"
    by simp
  with C8_deterministic [OF reads same] show ?thesis
    by simp
qed

text \<open>
  C9. The parameters of the transfer are constants of the snippet, whatever database it
  runs on: the transfer amount is 200000; on any database where both albums have a
  budget, a committing run raises the ValueError exactly when the budget of the album
  (2,2) is below 300000 and otherwise adds 200000 to the album (1,1) and takes 200000
  from the album (2,2); and every run reads no key but (2,2) and (1,1) and updates no
  rows but these two, in this order. The function takes the database and nothing that
  describes a transfer.
\<close>

theorem C9_fixed_parameters:
  "transfer_amount = 200000 \<and>
   (Albums db (1, 1) = Some r1 \<and> MarketingBudget r1 = Some b1 \<and>
    Albums db (2, 2) = Some r2 \<and> MarketingBudget r2 = Some b2 \<longrightarrow>
      read_write_transaction Success db =
        (if b2 < 300000 then (db, [ReadEv [(2, 2)]], Inl (ValueError funds_message))
         else (db\<lparr>Albums := (Albums db)
                  ((1, 1) \<mapsto> r1\<lparr>MarketingBudget := Some (b1 + 200000)\<rparr>,
                   (2, 2) \<mapsto> r2\<lparr>MarketingBudget := Some (b2 - 200000)\<rparr>)\<rparr>,
               [ReadEv [(2, 2)], ReadEv [(1, 1)], PrintBudgets (b1 + 200000) (b2 - 200000),
                UpdateEv [(1, 1, b1 + 200000), (2, 2, b2 - 200000)], PrintComplete],
               Inr ()))) \<and>
   (read_write_transaction v db = (db', tr, res) \<longrightarrow>
      (\<forall>ks. ReadEv ks \<in> set tr \<longrightarrow> ks = [(2, 2)] \<or> ks = [(1, 1)]) \<and>
      (\<forall>vals. UpdateEv vals \<in> set tr \<longrightarrow> (\<exists>x y. vals = [(1, 1, x), (2, 2, y)])))"
proof -
  have amount: "transfer_amount = 200000"
    by (simp add: transfer_amount_def)
  have run: "read_write_transaction Success db =
        (if b2 < 300000 then (db, [ReadEv [(2, 2)]], Inl (ValueError funds_message))
         else (db\<lparr>Albums := (Albums db)
                  ((1, 1) \<mapsto> r1\<lparr>MarketingBudget := Some (b1 + 200000)\<rparr>,
                   (2, 2) \<mapsto> r2\<lparr>MarketingBudget := Some (b2 - 200000)\<rparr>)\<rparr>,
               [ReadEv [(2, 2)], ReadEv [(1, 1)], PrintBudgets (b1 + 200000) (b2 - 200000),
                UpdateEv [(1, 1, b1 + 200000), (2, 2, b2 - 200000)], PrintComplete],
               Inr ()))"
    if h: "Albums db (1, 1) = Some r1 \<and> MarketingBudget r1 = Some b1 \<and>
      Albums db (2, 2) = Some r2 \<and> MarketingBudget r2 = Some b2"
  proof (cases "b2 < 300000")
    case True
    from rwt_low [of db r2 b2 Success] h True show ?thesis by simp
  next
    case False
    from rwt_success [of db r2 b2 r1 b1] h False show ?thesis by simp
  qed
  have keys: "(\<forall>ks. ReadEv ks \<in> set tr \<longrightarrow> ks = [(2, 2)] \<or> ks = [(1, 1)]) \<and>
      (\<forall>vals. UpdateEv vals \<in> set tr \<longrightarrow> (\<exists>x y. vals = [(1, 1, x), (2, 2, y)]))"
    if r: "read_write_transaction v db = (db', tr, res)"
  proof (cases db rule: database_cases)
    case missing2
    from rwt_missing2 [OF this, of v] r show ?thesis by auto
  next
    case (null2 r2)
    from rwt_null2 [OF this, of v] r show ?thesis by auto
  next
    case (low r2 b2)
    from rwt_low [OF this, of v] r show ?thesis by auto
  next
    case (missing1 r2 b2)
    from rwt_missing1 [OF this, of v] r show ?thesis by auto
  next
    case (null1 r2 b2 r1)
    from rwt_null1 [OF this, of v] r show ?thesis by auto
  next
    case (ok r2 b2 r1 b1)
    from rwt_ok [OF this, of v] r show ?thesis
      by auto
  qed
  from amount run keys show ?thesis by blast
qed

theorem C9_fixed_parameters_witness:
  "(\<exists>db' tr. read_write_transaction Success (with_budget sample_data (2, 2) 300000) =
      (db', tr, Inr ()) \<and>
      Albums db' (1, 1) =
        Some \<lparr>AlbumTitle = Some ''Total Junk'', MarketingBudget = Some 300000\<rparr> \<and>
      Albums db' (2, 2) =
        Some \<lparr>AlbumTitle = Some ''Forever Hold Your Peace'', MarketingBudget = Some 100000\<rparr>) \<and>
   read_write_transaction Success (with_budget sample_data (2, 2) 299999) =
     (with_budget sample_data (2, 2) 299999, [ReadEv [(2, 2)]],
      Inl (ValueError funds_message))"
proof -
  let ?r1 = "\<lparr>AlbumTitle = Some ''Total Junk'', MarketingBudget = Some 100000\<rparr>"
  let ?t2 = "Some ''Forever Hold Your Peace''"
  have at: "Albums (with_budget sample_data (2, 2) b) (1, 1) = Some ?r1 \<and>
      MarketingBudget ?r1 = Some 100000 \<and>
      Albums (with_budget sample_data (2, 2) b) (2, 2) =
        Some \<lparr>AlbumTitle = ?t2, MarketingBudget = Some b\<rparr> \<and>
      MarketingBudget \<lparr>AlbumTitle = ?t2, MarketingBudget = Some b\<rparr> = Some b" for b
    by (simp add: with_budget_def sample_data_albums)
  from C9_fixed_parameters [THEN conjunct2, THEN conjunct1, rule_format, OF at [of 300000]]
  have "read_write_transaction Success (with_budget sample_data (2, 2) 300000) =
      ((with_budget sample_data (2, 2) 300000)
         \<lparr>Albums := (Albums (with_budget sample_data (2, 2) 300000))
            ((1, 1) \<mapsto> ?r1\<lparr>MarketingBudget := Some 300000\<rparr>,
             (2, 2) \<mapsto> \<lparr>AlbumTitle = ?t2, MarketingBudget = Some 100000\<rparr>)\<rparr>,
       [ReadEv [(2, 2)], ReadEv [(1, 1)], PrintBudgets 300000 100000,
        UpdateEv [(1, 1, 300000), (2, 2, 100000)], PrintComplete],
       Inr ())"
    by simp
  then have commits: "\<exists>db' tr. read_write_transaction Success (with_budget sample_data (2, 2) 300000) =
      (db', tr, Inr ()) \<and>
      Albums db' (1, 1) = Some \<lparr>AlbumTitle = Some ''Total Junk'', MarketingBudget = Some 300000\<rparr> \<and>
      Albums db' (2, 2) = Some \<lparr>AlbumTitle = ?t2, MarketingBudget = Some 100000\<rparr>"
    by simp
  from C9_fixed_parameters [THEN conjunct2, THEN conjunct1, rule_format, OF at [of 299999]]
  have "read_write_transaction Success (with_budget sample_data (2, 2) 299999) =
     (with_budget sample_data (2, 2) 299999, [ReadEv [(2, 2)]],
      Inl (ValueError funds_message))"
    by simp
  with commits show ?thesis by blast
qed

text \<open>
  C10. Frame: a transaction that ends normally leaves the table \<^verbatim>\<open>Singers\<close> as it was,
  leaves every row of \<^verbatim>\<open>Albums\<close> other than (1,1) and (2,2) as it was, adds and removes
  no row, and changes no \<^verbatim>\<open>AlbumTitle\<close>: only the \<^verbatim>\<open>MarketingBudget\<close> of the two rows
  can differ.
\<close>

theorem C10_frame:
  assumes "read_write_transaction v db = (db', tr, Inr ())"
  shows "Singers db' = Singers db \<and>
    (\<forall>k. k \<noteq> (1, 1) \<and> k \<noteq> (2, 2) \<longrightarrow> Albums db' k = Albums db k) \<and>
    dom (Albums db') = dom (Albums db) \<and>
    (\<forall>k r r'. Albums db k = Some r \<and> Albums db' k = Some r' \<longrightarrow>
       AlbumTitle r' = AlbumTitle r \<and>
       (k \<noteq> (1, 1) \<and> k \<noteq> (2, 2) \<longrightarrow> MarketingBudget r' = MarketingBudget r))"
proof (cases db rule: database_cases)
  case missing2
  from rwt_missing2 [OF this, of v] assms show ?thesis by simp
next
  case (null2 r2)
  from rwt_null2 [OF this, of v] assms show ?thesis by simp
next
  case (low r2 b2)
  from rwt_low [OF this, of v] assms show ?thesis by simp
next
  case (missing1 r2 b2)
  from rwt_missing1 [OF this, of v] assms show ?thesis by simp
next
  case (null1 r2 b2 r1)
  from rwt_null1 [OF this, of v] assms show ?thesis by simp
next
  case (ok r2 b2 r1 b1)
  show ?thesis
  proof -
    from rwt_ok [OF ok, of v] assms
    have db': "db' = db\<lparr>Albums := (Albums db)
         ((1, 1) \<mapsto> r1\<lparr>MarketingBudget := Some (b1 + 200000)\<rparr>,
          (2, 2) \<mapsto> r2\<lparr>MarketingBudget := Some (b2 - 200000)\<rparr>)\<rparr>"
      by auto
    have singers: "Singers db' = Singers db"
      by (simp add: db')
    have others: "Albums db' k = Albums db k" if "k \<noteq> (1, 1) \<and> k \<noteq> (2, 2)" for k
      using that by (simp add: db')
    have rows: "dom (Albums db') = dom (Albums db)"
      using ok(1,4) by (auto simp: db')
    have titles: "AlbumTitle r' = AlbumTitle r \<and>
        (k \<noteq> (1, 1) \<and> k \<noteq> (2, 2) \<longrightarrow> MarketingBudget r' = MarketingBudget r)"
      if "Albums db k = Some r \<and> Albums db' k = Some r'" for k r r'
      using that ok(1,4) by (auto simp: db' split: if_splits)
    from singers others rows titles show ?thesis by blast
  qed
qed

theorem C10_frame_witness:
  "\<exists>db' tr. read_write_transaction Success sample_data = (db', tr, Inr ()) \<and>
     Singers db' 1 =
       Some \<lparr>FirstName = Some ''Marc'', LastName = Some ''Richards'', SingerInfo = None\<rparr> \<and>
     Albums db' (1, 2) = Some \<lparr>AlbumTitle = Some ''Go, Go, Go'', MarketingBudget = None\<rparr> \<and>
     dom (Albums db') = dom (Albums sample_data)"
proof -
  have "\<not> (500000::int) < 300000" by simp
  from rwt_success [OF sample_data_albums(2) _ this sample_data_albums(1)]
  obtain db' tr where run: "read_write_transaction Success sample_data = (db', tr, Inr ())"
    by simp
  from C10_frame [OF run] have "Singers db' = Singers sample_data"
    and "Albums db' (1, 2) = Albums sample_data (1, 2)"
    and "dom (Albums db') = dom (Albums sample_data)"
    by simp_all
  with run show ?thesis
    by (auto simp: sample_data_other)
qed

end
